theory Spec2Isabelle
  imports
    Main
    "HOL-Library.Word"
    "HOL-Library.AList"
    "HOL-Library.Sublist"
    "HOL-Library.Multiset"
begin

section \<open>Strings: the functions of package \<^verbatim>\<open>strings\<close> that the targeting code calls\<close>

text \<open>
  A Go string is a byte sequence, modelled as \<^typ>\<open>string\<close>. \<^verbatim>\<open>strings.HasPrefix\<close>,
  \<^verbatim>\<open>strings.Contains\<close>, \<^verbatim>\<open>strings.Split\<close> and \<^verbatim>\<open>strings.SplitN\<close> work on bytes (the
  separators used by the source are the single bytes \<^verbatim>\<open>,\<close> and \<^verbatim>\<open>=\<close>).
\<close>

definition HasPrefix :: "string \<Rightarrow> string \<Rightarrow> bool" where
  "HasPrefix s p = (take (length p) s = p)"

fun Contains :: "string \<Rightarrow> string \<Rightarrow> bool" where
  "Contains [] substr = (substr = [])"
| "Contains (c # cs) substr = (HasPrefix (c # cs) substr \<or> Contains cs substr)"

fun Split :: "string \<Rightarrow> char \<Rightarrow> string list" where
  "Split [] sep = [[]]"
| "Split (c # cs) sep =
     (if c = sep then [] # Split cs sep
      else (case Split cs sep of [] \<Rightarrow> [[c]] | w # ws \<Rightarrow> (c # w) # ws))"

text \<open>\<^verbatim>\<open>strings.SplitN(s, sep, 2)\<close>: at most two pieces, cut at the first separator.\<close>

definition SplitN2 :: "string \<Rightarrow> char \<Rightarrow> string list" where
  "SplitN2 s sep =
     (case dropWhile (\<lambda>c. c \<noteq> sep) s of
        [] \<Rightarrow> [s]
      | _ # rest \<Rightarrow> [takeWhile (\<lambda>c. c \<noteq> sep) s, rest])"

text \<open>
  \<^verbatim>\<open>strings.TrimSpace\<close> removes the leading and the trailing runes for which
  \<^verbatim>\<open>unicode.IsSpace\<close> holds: the six ASCII white-space characters, U+0085, U+00A0, U+1680,
  U+2000 to U+200A, U+2028, U+2029, U+202F, U+205F and U+3000. \<open>whiteSpace\<close> lists their
  UTF-8 encodings. A rune is decoded at the front of the string exactly when its encoding
  is a prefix, and at the back exactly when its encoding is a suffix; bytes that are not
  valid UTF-8 decode to U+FFFD, which is no white space, and so stop the trimming.
\<close>

definition whiteSpace :: "string list" where
  "whiteSpace =
     [[CHR 0x09], [CHR 0x0A], [CHR 0x0B], [CHR 0x0C], [CHR 0x0D], [CHR 0x20],
      [CHR 0xC2, CHR 0x85], [CHR 0xC2, CHR 0xA0],
      [CHR 0xE1, CHR 0x9A, CHR 0x80],
      [CHR 0xE2, CHR 0x80, CHR 0x80], [CHR 0xE2, CHR 0x80, CHR 0x81],
      [CHR 0xE2, CHR 0x80, CHR 0x82], [CHR 0xE2, CHR 0x80, CHR 0x83],
      [CHR 0xE2, CHR 0x80, CHR 0x84], [CHR 0xE2, CHR 0x80, CHR 0x85],
      [CHR 0xE2, CHR 0x80, CHR 0x86], [CHR 0xE2, CHR 0x80, CHR 0x87],
      [CHR 0xE2, CHR 0x80, CHR 0x88], [CHR 0xE2, CHR 0x80, CHR 0x89],
      [CHR 0xE2, CHR 0x80, CHR 0x8A],
      [CHR 0xE2, CHR 0x80, CHR 0xA8], [CHR 0xE2, CHR 0x80, CHR 0xA9],
      [CHR 0xE2, CHR 0x80, CHR 0xAF],
      [CHR 0xE2, CHR 0x81, CHR 0x9F],
      [CHR 0xE3, CHR 0x80, CHR 0x80]]"

text \<open>\<open>TrimLeft encs\<close> removes from the front, as long as there is one, a member of \<open>encs\<close>.\<close>

function TrimLeft :: "string list \<Rightarrow> string \<Rightarrow> string" where
  "TrimLeft encs s =
     (case find (\<lambda>e. e \<noteq> [] \<and> prefix e s) encs of
        None \<Rightarrow> s
      | Some e \<Rightarrow> TrimLeft encs (drop (length e) s))"
  by pat_completeness auto
termination
  by (relation "measure (\<lambda>(encs, s). length s)")
     (auto simp add: find_Some_iff prefix_def)

definition TrimSpace :: "string \<Rightarrow> string" where
  "TrimSpace s = rev (TrimLeft (map rev whiteSpace) (rev (TrimLeft whiteSpace s)))"

text \<open>
  \<^verbatim>\<open>strings.ToLower\<close> has two paths. On a string of ASCII bytes it adds \<^verbatim>\<open>'a' - 'A'\<close> to every
  byte from \<^verbatim>\<open>A\<close> to \<^verbatim>\<open>Z\<close> (\<open>lowerASCII\<close>). On any other string it returns
  \<^verbatim>\<open>strings.Map(unicode.ToLower, s)\<close>, which reads the case tables of package
  \<^verbatim>\<open>unicode\<close>; that function of the string is the parameter \<open>unicodeLower\<close>, and every
  definition that lower-cases takes it as its first argument. What is proved below holds
  for every such function.
\<close>

definition lowerASCII :: "char \<Rightarrow> char" where
  "lowerASCII c =
     (case map_of (zip ''ABCDEFGHIJKLMNOPQRSTUVWXYZ'' ''abcdefghijklmnopqrstuvwxyz'') c of
        None \<Rightarrow> c
      | Some l \<Rightarrow> l)"

definition ToLower :: "(string \<Rightarrow> string) \<Rightarrow> string \<Rightarrow> string" where
  "ToLower unicodeLower s =
     (if list_all (\<lambda>c. (of_char c :: nat) < 128) s then map lowerASCII s
      else unicodeLower s)"

section \<open>Target (internal/fusion/targeting/target.go)\<close>

abbreviation TargetSingle :: string where "TargetSingle \<equiv> ''single''"
abbreviation TargetMulti :: string where "TargetMulti \<equiv> ''multi''"
abbreviation TargetFleet :: string where "TargetFleet \<equiv> ''fleet''"
abbreviation TargetSelector :: string where "TargetSelector \<equiv> ''selector''"
abbreviation TargetAll :: string where "TargetAll \<equiv> ''all''"

text \<open>
  \<^verbatim>\<open>Timeout\<close> is a Go \<^verbatim>\<open>int\<close>, 64 bits wide on the platforms the server is built for;
  \<^verbatim>\<open>time.Duration\<close> is an \<^verbatim>\<open>int64\<close> count of nanoseconds.
\<close>

type_synonym Duration = "64 word"

definition Second :: Duration where
  "Second = 1000000000"

record Target =
  Type :: string
  Cluster :: string
  Clusters :: "string list"
  Fleet :: string
  Selector :: string
  Timeout :: "64 word"

text \<open>
  Errors are the messages that \<^verbatim>\<open>fmt.Errorf\<close> builds; a result is \<open>Inl\<close> of the message or
  \<open>Inr\<close> of the value. \<^verbatim>\<open>Validate\<close> has a pointer receiver: \<open>None\<close> is the nil receiver, and
  the target it returns on success carries the one mutation the method makes (an empty
  \<^verbatim>\<open>Type\<close> becomes \<^verbatim>\<open>single\<close>).
\<close>

fun Validate :: "Target option \<Rightarrow> string + Target" where
  "Validate None = Inl ''target cannot be nil''"
| "Validate (Some t) =
     (if Type t = TargetSingle then
        (if Cluster t = [] then Inl ''cluster name required for single target'' else Inr t)
      else if Type t = TargetMulti then
        (if length (Clusters t) = 0 then Inl ''at least one cluster required for multi target''
         else Inr t)
      else if Type t = TargetFleet then
        (if Fleet t = [] then Inl ''fleet name required for fleet target'' else Inr t)
      else if Type t = TargetSelector then
        (if Selector t = [] then Inl ''selector required for selector target'' else Inr t)
      else if Type t = TargetAll then Inr t
      else if Type t = [] then Inr (t\<lparr>Type := TargetSingle\<rparr>)
      else Inl (''invalid target type: '' @ Type t))"

text \<open>
  \<^verbatim>\<open>parseSelector\<close> fills a Go map; the model keeps it as an association list with one
  entry per key, so that a later pair with the same key replaces the earlier one as the
  map assignment does.
\<close>

definition parseSelector :: "string \<Rightarrow> (string \<times> string) list" where
  "parseSelector selector =
     fold (\<lambda>pair selectors.
             (case SplitN2 (TrimSpace pair) CHR ''='' of
                [k, v] \<Rightarrow> AList.update (TrimSpace k) (TrimSpace v) selectors
              | _ \<Rightarrow> selectors))
          (Split selector CHR '','') []"

text \<open>
  The loop of \<^verbatim>\<open>matchesSelector\<close> returns false at the first entry that fails; Go visits
  the entries of a map in no fixed order, which a conjunction over all entries does not
  depend on.
\<close>

definition matchesSelector ::
  "(string \<Rightarrow> string) \<Rightarrow> string \<Rightarrow> (string \<times> string) list \<Rightarrow> bool" where
  "matchesSelector unicodeLower clusterName selectors =
     list_all (\<lambda>(key, val).
                 \<not> (key = ''name'' \<and> \<not> Contains clusterName val) \<and>
                 \<not> (key = ''env'' \<and>
                    \<not> Contains (ToLower unicodeLower clusterName) (ToLower unicodeLower val)))
              selectors"

definition GetClusterNames ::
  "(string \<Rightarrow> string) \<Rightarrow> Target option \<Rightarrow> string list \<Rightarrow> string + string list" where
  "GetClusterNames unicodeLower tp availableClusters =
     (case Validate tp of
        Inl err \<Rightarrow> Inl err
      | Inr t \<Rightarrow>
          if Type t = TargetSingle then Inr [Cluster t]
          else if Type t = TargetMulti then Inr (Clusters t)
          else if Type t = TargetAll then Inr availableClusters
          else if Type t = TargetFleet then
            (let fleetPrefix = Fleet t @ ''-'';
                 fleetClusters =
                   filter (\<lambda>cluster. HasPrefix cluster fleetPrefix \<or> cluster = Fleet t)
                     availableClusters
             in if length fleetClusters = 0
                then Inl (''no clusters found for fleet: '' @ Fleet t)
                else Inr fleetClusters)
          else if Type t = TargetSelector then
            (let selectors = parseSelector (Selector t);
                 selectedClusters =
                   filter (\<lambda>cluster. matchesSelector unicodeLower cluster selectors)
                     availableClusters
             in if length selectedClusters = 0
                then Inl (''no clusters match selector: '' @ Selector t)
                else Inr selectedClusters)
          else Inl (''unsupported target type: '' @ Type t))"

text \<open>
  \<^verbatim>\<open>ResolveClusterNames\<close> takes the registry as an \<^verbatim>\<open>interface{}\<close> and never reads it; the
  model keeps the argument, at any type.
\<close>

definition ResolveClusterNames :: "Target option \<Rightarrow> 'r \<Rightarrow> string + string list" where
  "ResolveClusterNames tp registry =
     (case Validate tp of
        Inl err \<Rightarrow> Inl err
      | Inr t \<Rightarrow>
          if Type t = TargetSingle then
            (if Cluster t = [] then Inr [''default''] else Inr [Cluster t])
          else if Type t = TargetMulti then Inr (Clusters t)
          else if Type t = TargetAll \<or> Type t = TargetFleet then Inr [''default'']
          else Inr [''default''])"

section \<open>Result (internal/fusion/targeting/target.go)\<close>

text \<open>
  \<^verbatim>\<open>Data\<close> is an \<^verbatim>\<open>interface{}\<close>: \<open>None\<close> is nil, \<open>Some\<close> a payload. The two Go maps are
  association lists with one entry per key (an assignment to a key that is present
  replaces its value); Go does not order maps, and the counts and lookups below do not
  depend on the order of the list. The dispatcher writes \<^verbatim>\<open>result.Summary.Error\<close>, so
  \<^verbatim>\<open>Summary\<close> is a record with that field, empty in a new result. The dispatcher names
  the first field of a \<^verbatim>\<open>ClusterResult\<close> \<^verbatim>\<open>Cluster\<close>; it is the field \<^verbatim>\<open>ClusterName\<close> declared
  in target.go.
\<close>

record 'j ClusterResult =
  ClusterName :: string
  Data :: "'j option"
  Error :: string
  Success :: bool

record Summary =
  SummaryError :: string

record 'j Result =
  Target :: Target
  ClusterResults :: "(string \<times> 'j ClusterResult) list"
  Summary :: Summary
  Errors :: "(string \<times> string) list"

definition NewResult :: "Target \<Rightarrow> 'j Result" where
  "NewResult target =
     \<lparr>Target = target, ClusterResults = [], Summary = \<lparr>SummaryError = []\<rparr>, Errors = []\<rparr>"

text \<open>The error argument is \<open>None\<close> for nil and \<open>Some\<close> of the error's message otherwise.\<close>

definition AddClusterResult ::
  "'j Result \<Rightarrow> string \<Rightarrow> 'j option \<Rightarrow> string option \<Rightarrow> 'j Result" where
  "AddClusterResult r clusterName data err =
     (let result = \<lparr>ClusterName = clusterName, Data = data,
                     Error = (case err of None \<Rightarrow> [] | Some e \<Rightarrow> e),
                     Success = (err = None)\<rparr>;
          r1 = (case err of
                  None \<Rightarrow> r
                | Some e \<Rightarrow> r\<lparr>Errors := AList.update clusterName e (Errors r)\<rparr>)
      in r1\<lparr>ClusterResults := AList.update clusterName result (ClusterResults r1)\<rparr>)"

definition HasErrors :: "'j Result \<Rightarrow> bool" where
  "HasErrors r = (length (Errors r) > 0)"

definition SuccessCount :: "'j Result \<Rightarrow> nat" where
  "SuccessCount r = length (filter (\<lambda>(name, result). Success result) (ClusterResults r))"

definition FailureCount :: "'j Result \<Rightarrow> nat" where
  "FailureCount r = length (Errors r)"

text \<open>
  In target.go the statement \<^verbatim>\<open>return len(r.ClusterResults)\<close> of \<^verbatim>\<open>TotalCount\<close> stands at
  the end of the file, after \<^verbatim>\<open>ResolveClusterNames\<close>; it is the body of the method.
\<close>

definition TotalCount :: "'j Result \<Rightarrow> nat" where
  "TotalCount r = length (ClusterResults r)"

section \<open>Registry (internal/fusion/clients)\<close>

text \<open>
  A \<^verbatim>\<open>ClusterClient\<close> carries two opaque capabilities, the client set and the REST
  configuration; they stay type parameters. The registry's mutex is left out: every
  method holds it for its whole body, so each method is one atomic step on the record.
\<close>

record ('k, 'c) ClusterClient =
  Name :: string
  Clientset :: 'k
  Config :: 'c
  Context :: string

record ('k, 'c) Registry =
  clients :: "(string \<times> ('k, 'c) ClusterClient) list"
  timeout :: Duration

definition NewRegistry :: "('k, 'c) Registry" where
  "NewRegistry = \<lparr>clients = [], timeout = 30 * Second\<rparr>"

definition SetTimeout :: "('k, 'c) Registry \<Rightarrow> Duration \<Rightarrow> ('k, 'c) Registry" where
  "SetTimeout r d = r\<lparr>timeout := d\<rparr>"

definition GetClient :: "('k, 'c) Registry \<Rightarrow> string \<Rightarrow> string + ('k, 'c) ClusterClient" where
  "GetClient r clusterName =
     (case map_of (clients r) clusterName of
        None \<Rightarrow> Inl (''cluster '' @ clusterName @ '' not found in registry'')
      | Some client \<Rightarrow> Inr client)"

definition ListClusterNames :: "('k, 'c) Registry \<Rightarrow> string list" where
  "ListClusterNames r = map fst (clients r)"

section \<open>The dispatcher (internal/fusion/services/common.go)\<close>

text \<open>
  A \<^verbatim>\<open>ClusterOperation\<close> receives the context derived by \<^verbatim>\<open>context.WithTimeout\<close> and a
  client; the derived context is represented by the duration it was derived with. The
  operation returns \<open>Inl\<close> of its error's message or \<open>Inr\<close> of its payload; it is a
  function of its two arguments, so an operation that answers differently when it is
  called twice with the same context and client is outside the model.
  \<^verbatim>\<open>json.Marshal\<close> is a parameter \<open>marshal\<close> of the same shape.

  \<open>worker\<close> is the body of the goroutine started for one cluster name. Besides the
  \<^verbatim>\<open>ClusterResult\<close> it sends on the channel, the model returns the calls of the operation
  it made (cluster name and duration of the context): this list is not a value of the
  program, it records the effect "the operation was invoked".
\<close>

type_synonym ('k, 'c, 'd) ClusterOperation =
  "Duration \<Rightarrow> ('k, 'c) ClusterClient \<Rightarrow> string + 'd"

definition worker ::
  "('k, 'c) Registry \<Rightarrow> ('k, 'c, 'd) ClusterOperation \<Rightarrow> ('d \<Rightarrow> string + 'j) \<Rightarrow> Duration \<Rightarrow>
   string \<Rightarrow> 'j ClusterResult \<times> (string \<times> Duration) list" where
  "worker registry operation marshal opTimeout name =
     (case GetClient registry name of
        Inl err \<Rightarrow>
          (\<lparr>ClusterName = name, Data = None,
            Error = ''failed to get client: '' @ err, Success = False\<rparr>, [])
      | Inr client \<Rightarrow>
          (case operation opTimeout client of
             Inl err \<Rightarrow>
               (\<lparr>ClusterName = name, Data = None, Error = err, Success = False\<rparr>,
                [(name, opTimeout)])
           | Inr data \<Rightarrow>
               (case marshal data of
                  Inl err \<Rightarrow>
                    (\<lparr>ClusterName = name, Data = None,
                      Error = ''failed to marshal data: '' @ err, Success = False\<rparr>,
                     [(name, opTimeout)])
                | Inr jsonData \<Rightarrow>
                    (\<lparr>ClusterName = name, Data = Some jsonData, Error = [], Success = True\<rparr>,
                     [(name, opTimeout)]))))"

text \<open>The loop that drains the channel: one \<^verbatim>\<open>AddClusterResult\<close> per received result.\<close>

definition collect :: "'j ClusterResult list \<Rightarrow> 'j Result \<Rightarrow> 'j Result" where
  "collect received result =
     fold (\<lambda>clusterResult r.
             AddClusterResult r (ClusterName clusterResult) (Data clusterResult)
               (if \<not> Success clusterResult then Some (Error clusterResult) else None))
          received result"

text \<open>
  The goroutines run concurrently and the channel delivers their results in the order
  in which they finish. That order is the parameter \<open>sched\<close>: it rearranges the list of
  results, and the runs of the program are the runs of the model with a \<open>sched\<close> that
  permutes its argument (\<open>fair\<close>). The second component of the value is the list of
  operation calls made by the workers.
\<close>

definition fair :: "('a list \<Rightarrow> 'a list) \<Rightarrow> bool" where
  "fair sched = (\<forall>xs. mset (sched xs) = mset xs)"

text \<open>
  The value of the local variable \<^verbatim>\<open>timeout\<close> of \<^verbatim>\<open>ExecuteOnClusters\<close>: thirty seconds,
  or the target's \<^verbatim>\<open>Timeout\<close> times \<^verbatim>\<open>time.Second\<close> when that is positive. The comparison is
  the signed one and the product is the wrapping product of \<^verbatim>\<open>int64\<close>.
\<close>

definition opTimeout :: "Target \<Rightarrow> Duration" where
  "opTimeout target = (if 0 <s Timeout target then Timeout target * Second else 30 * Second)"

definition ExecuteOnClusters ::
  "('k, 'c) Registry \<Rightarrow> Target \<Rightarrow> ('k, 'c, 'd) ClusterOperation \<Rightarrow> ('d \<Rightarrow> string + 'j) \<Rightarrow>
   ('j ClusterResult list \<Rightarrow> 'j ClusterResult list) \<Rightarrow>
   'j Result \<times> (string \<times> Duration) list" where
  "ExecuteOnClusters registry target operation marshal sched =
     (let result = NewResult target in
      case ResolveClusterNames (Some target) registry of
        Inl err \<Rightarrow> (result\<lparr>Summary := (Summary result)\<lparr>SummaryError := err\<rparr>\<rparr>, [])
      | Inr clusterNames \<Rightarrow>
          (let tasks = map (worker registry operation marshal (opTimeout target)) clusterNames
           in (collect (sched (map fst tasks)) result, concat (map snd tasks))))"

section \<open>Values used in the closed instances\<close>

abbreviation client :: "string \<Rightarrow> (unit, unit) ClusterClient" where
  "client n \<equiv> \<lparr>Name = n, Clientset = (), Config = (), Context = n\<rparr>"

abbreviation registryOf :: "string list \<Rightarrow> (unit, unit) Registry" where
  "registryOf ns \<equiv> \<lparr>clients = map (\<lambda>n. (n, client n)) ns, timeout = 30 * Second\<rparr>"

abbreviation target :: "string \<Rightarrow> string \<Rightarrow> string list \<Rightarrow> string \<Rightarrow> string \<Rightarrow> Target" where
  "target ty c cs f s \<equiv>
     \<lparr>Type = ty, Cluster = c, Clusters = cs, Fleet = f, Selector = s, Timeout = 0\<rparr>"

text \<open>
  The strings of the instances are ASCII, so \<open>ToLower\<close> never calls its parameter there;
  the instances pass \<open>id\<close>.
\<close>

text \<open>An operation that returns the client's name, one that always fails, and a marshaller.\<close>

abbreviation echo :: "(unit, unit, string) ClusterOperation" where
  "echo \<equiv> (\<lambda>d c. Inr (Name c))"

abbreviation refuse :: "string \<Rightarrow> (unit, unit, string) ClusterOperation" where
  "refuse msg \<equiv> (\<lambda>d c. Inl msg)"

abbreviation quoted :: "string \<Rightarrow> string + string" where
  "quoted \<equiv> (\<lambda>p. Inr (''<'' @ p @ ''>''))"

text \<open>The value of a dispatch whose target did not resolve.\<close>

abbreviation failed :: "Target \<Rightarrow> string \<Rightarrow> 'j Result \<times> (string \<times> Duration) list" where
  "failed t err \<equiv>
     (\<lparr>Target = t, ClusterResults = [], Summary = \<lparr>SummaryError = err\<rparr>, Errors = []\<rparr>, [])"

section \<open>The selector rule in the words of the specification\<close>

text \<open>
  The specification describes selector matching on the list of pairs: the expression is
  split on commas, each piece is trimmed and cut at its first \<^verbatim>\<open>=\<close>, both sides are
  trimmed, and a piece without \<^verbatim>\<open>=\<close> is dropped. A pair holds for a name when its key is
  \<^verbatim>\<open>name\<close> and the name contains the value, or its key is \<^verbatim>\<open>env\<close> and the lower-cased
  name contains the lower-cased value (lower-cased by \<open>ToLower\<close>), or its key is any other. These definitions follow
  that text, not the source; they are compared with \<open>parseSelector\<close> and
  \<open>matchesSelector\<close> below.
\<close>

definition spec_selectorPairs :: "string \<Rightarrow> (string \<times> string) list" where
  "spec_selectorPairs expr =
     concat (map (\<lambda>pair. case SplitN2 (TrimSpace pair) CHR ''='' of
                            [k, v] \<Rightarrow> [(TrimSpace k, TrimSpace v)]
                          | _ \<Rightarrow> [])
                 (Split expr CHR '',''))"

definition spec_pairHolds :: "(string \<Rightarrow> string) \<Rightarrow> string \<Rightarrow> string \<times> string \<Rightarrow> bool" where
  "spec_pairHolds unicodeLower name kv =
     ((fst kv = ''name'' \<longrightarrow> sublist (snd kv) name) \<and>
      (fst kv = ''env'' \<longrightarrow>
         sublist (ToLower unicodeLower (snd kv)) (ToLower unicodeLower name)))"

text \<open>The pairs that are the last of their key: the ones that survive in a Go map.\<close>

definition spec_lastPairs :: "(string \<times> string) list \<Rightarrow> (string \<times> string) list" where
  "spec_lastPairs ps = filter (\<lambda>kv. map_of (rev ps) (fst kv) = Some (snd kv)) ps"

text \<open>A resolver's answer for a filtered list: the list, or the error when it is empty.\<close>

definition spec_orNoMatch :: "string list \<Rightarrow> string \<Rightarrow> string + string list" where
  "spec_orNoMatch names msg = (if names = [] then Inl msg else Inr names)"

section \<open>Resolution failure and validation\<close>

text \<open>
  C1. When \<^verbatim>\<open>ResolveClusterNames\<close> fails for the target, \<^verbatim>\<open>ExecuteOnClusters\<close> returns the
  new result with no cluster results, with \<^verbatim>\<open>Summary.Error\<close> set to the message of the
  resolution error, and no worker has called the operation (the list of calls is empty),
  whatever the registry, the operation and the order of delivery are.
\<close>

theorem resolution_failure_aborts_dispatch:
  assumes "ResolveClusterNames (Some t) registry = Inl err"
  shows "ExecuteOnClusters registry t operation marshal sched = failed t err"
  using assms by (simp add: ExecuteOnClusters_def NewResult_def)

theorem resolution_failure_aborts_dispatch_witness:
  "ResolveClusterNames (Some (target ''fleet'' [] [] [] [])) (registryOf [''default''])
     = Inl ''fleet name required for fleet target'' \<and>
   ExecuteOnClusters (registryOf [''default'']) (target ''fleet'' [] [] [] []) echo quoted rev
     = failed (target ''fleet'' [] [] [] []) ''fleet name required for fleet target''"
proof -
  have r: "ResolveClusterNames (Some (target ''fleet'' [] [] [] [])) (registryOf [''default''])
             = Inl ''fleet name required for fleet target''"
    by (simp add: ResolveClusterNames_def)
  show ?thesis
    using r resolution_failure_aborts_dispatch [OF r, of echo quoted rev] by simp
qed

text \<open>
  C6. For a target of kind \<^verbatim>\<open>multi\<close> with a non-empty \<^verbatim>\<open>Clusters\<close> list, both resolvers
  (\<^verbatim>\<open>ResolveClusterNames\<close>, which the dispatcher calls, and \<^verbatim>\<open>GetClusterNames\<close>) return
  that list itself: same names, same order, duplicates kept. With an empty list
  \<^verbatim>\<open>Validate\<close> fails, and the dispatcher returns without calling the operation.
\<close>

theorem multi_resolves_verbatim:
  assumes "Type t = TargetMulti"
  shows "(Clusters t \<noteq> [] \<longrightarrow>
            ResolveClusterNames (Some t) registry = Inr (Clusters t) \<and>
            GetClusterNames unicodeLower (Some t) available = Inr (Clusters t)) \<and>
         (Clusters t = [] \<longrightarrow>
            Validate (Some t) = Inl ''at least one cluster required for multi target'' \<and>
            GetClusterNames unicodeLower (Some t) available =
              Inl ''at least one cluster required for multi target'' \<and>
            ExecuteOnClusters registry t operation marshal sched =
              failed t ''at least one cluster required for multi target'')"
  using assms
  by (simp add: ResolveClusterNames_def GetClusterNames_def ExecuteOnClusters_def NewResult_def)

theorem multi_resolves_verbatim_witness:
  "ResolveClusterNames (Some (target ''multi'' [] [''b'', ''a'', ''b''] [] [])) (registryOf [''a''])
     = Inr [''b'', ''a'', ''b''] \<and>
   GetClusterNames id (Some (target ''multi'' [] [''b'', ''a'', ''b''] [] [])) [''a'']
     = Inr [''b'', ''a'', ''b''] \<and>
   Validate (Some (target ''multi'' [] [] [] []))
     = Inl ''at least one cluster required for multi target'' \<and>
   ExecuteOnClusters (registryOf [''a'']) (target ''multi'' [] [] [] []) echo quoted rev
     = failed (target ''multi'' [] [] [] []) ''at least one cluster required for multi target''"
  using multi_resolves_verbatim [of "target ''multi'' [] [''b'', ''a'', ''b''] [] []"
          "registryOf [''a'']" id "[''a'']" echo quoted rev]
        multi_resolves_verbatim [of "target ''multi'' [] [] [] []"
          "registryOf [''a'']" id "[''a'']" echo quoted rev]
  by simp

text \<open>
  C8, as the code has it. \<^verbatim>\<open>Validate\<close> succeeds exactly when the kind is \<^verbatim>\<open>single\<close>,
  \<^verbatim>\<open>multi\<close>, \<^verbatim>\<open>fleet\<close> or \<^verbatim>\<open>selector\<close> and the field of that kind is non-empty, or the kind
  is \<^verbatim>\<open>all\<close>, or the kind is empty. An empty kind is set to \<^verbatim>\<open>single\<close> and nothing else is
  checked, so an empty kind with an empty cluster name is valid; every other target is
  returned unchanged. When validation fails, the dispatcher returns the empty result
  with the validation message and the operation is not called.
\<close>

theorem validate_by_kind:
  "(\<not> isl (Validate (Some t)) \<longleftrightarrow>
      Type t = TargetSingle \<and> Cluster t \<noteq> [] \<or>
      Type t = TargetMulti \<and> Clusters t \<noteq> [] \<or>
      Type t = TargetFleet \<and> Fleet t \<noteq> [] \<or>
      Type t = TargetSelector \<and> Selector t \<noteq> [] \<or>
      Type t = TargetAll \<or>
      Type t = []) \<and>
   (\<forall>t'. Validate (Some t) = Inr t' \<longrightarrow>
      t' = (if Type t = [] then t\<lparr>Type := TargetSingle\<rparr> else t)) \<and>
   (\<forall>err. Validate (Some t) = Inl err \<longrightarrow>
      ExecuteOnClusters registry t operation marshal sched = failed t err)"
  by (auto simp add: ExecuteOnClusters_def ResolveClusterNames_def NewResult_def
        split: if_splits)

theorem validate_by_kind_witness:
  "\<not> isl (Validate (Some (target [] [] [] [] []))) \<and>
   Validate (Some (target [] [] [] [] [])) = Inr (target ''single'' [] [] [] []) \<and>
   isl (Validate (Some (target ''single'' [] [] [] []))) \<and>
   ExecuteOnClusters (registryOf [''a'']) (target ''single'' [] [] [] []) echo quoted rev
     = failed (target ''single'' [] [] [] []) ''cluster name required for single target''"
  using validate_by_kind [of "target [] [] [] [] []" "registryOf [''a'']" echo quoted rev]
        validate_by_kind [of "target ''single'' [] [] [] []" "registryOf [''a'']" echo quoted rev]
  by simp

text \<open>
  C8 as the specification words it fails: the target with an empty kind and an empty
  cluster name passes validation (and comes back with kind \<^verbatim>\<open>single\<close>).
\<close>

theorem empty_kind_validates_counterexample:
  "\<not> isl (Validate (Some \<lparr>Type = [], Cluster = [], Clusters = [], Fleet = [], Selector = [],
                          Timeout = 0\<rparr>)) \<and>
   Validate (Some \<lparr>Type = [], Cluster = [], Clusters = [], Fleet = [], Selector = [],
                   Timeout = 0\<rparr>)
     = Inr \<lparr>Type = ''single'', Cluster = [], Clusters = [], Fleet = [], Selector = [],
            Timeout = 0\<rparr>"
  by simp

section \<open>Resolution by kind\<close>

lemma HasPrefix_iff_prefix: "HasPrefix s p \<longleftrightarrow> prefix p s"
  unfolding HasPrefix_def prefix_def
  by (metis append_eq_conv_conj)

lemma Contains_iff_sublist: "Contains s sub \<longleftrightarrow> sublist sub s"
  by (induction s) (auto simp add: HasPrefix_iff_prefix sublist_Cons_right)

text \<open>
  C4, as the code has it. For a target of kind \<^verbatim>\<open>fleet\<close> whose \<^verbatim>\<open>Fleet\<close> is not empty,
  \<^verbatim>\<open>GetClusterNames\<close> returns the available names that equal the fleet name or have the
  fleet name followed by \<^verbatim>\<open>-\<close> as a prefix, in the order given, and the error
  \<^verbatim>\<open>no clusters found for fleet: <name>\<close> when there is none.
\<close>

theorem fleet_resolution:
  assumes "Type t = TargetFleet" and "Fleet t \<noteq> []"
  shows "GetClusterNames unicodeLower (Some t) available =
           spec_orNoMatch (filter (\<lambda>n. n = Fleet t \<or> prefix (Fleet t @ ''-'') n) available)
             (''no clusters found for fleet: '' @ Fleet t)"
proof -
  have same: "(\<lambda>cluster. HasPrefix cluster (Fleet t @ ''-'') \<or> cluster = Fleet t)
                = (\<lambda>n. n = Fleet t \<or> prefix (Fleet t @ ''-'') n)"
    by (auto simp add: HasPrefix_iff_prefix)
  show ?thesis
    using assms by (simp add: GetClusterNames_def Let_def same spec_orNoMatch_def)
qed

theorem fleet_resolution_witness:
  "GetClusterNames id (Some (target ''fleet'' [] [] ''x'' [])) [''x-1'', ''x-2'', ''y-1'']
     = Inr [''x-1'', ''x-2''] \<and>
   GetClusterNames id (Some (target ''fleet'' [] [] ''x'' [])) [''y-1'', ''xy'']
     = Inl ''no clusters found for fleet: x''"
  using fleet_resolution [of "target ''fleet'' [] [] ''x'' []" id
          "[''x-1'', ''x-2'', ''y-1'']"]
        fleet_resolution [of "target ''fleet'' [] [] ''x'' []" id "[''y-1'', ''xy'']"]
  by (simp add: spec_orNoMatch_def)

text \<open>
  C4 as the specification words it fails in two places. With an empty fleet name
  \<^verbatim>\<open>GetClusterNames\<close> stops at validation, although the name \<^verbatim>\<open>-1\<close> starts with the empty
  name followed by \<^verbatim>\<open>-\<close>. And the resolver that the dispatcher calls,
  \<^verbatim>\<open>ResolveClusterNames\<close>, does not filter: for fleet \<^verbatim>\<open>x\<close> against the names of the
  specification's scenario it returns the single name \<^verbatim>\<open>default\<close>.
\<close>

theorem fleet_resolution_counterexample:
  "GetClusterNames id (Some (target ''fleet'' [] [] [] [])) [''-1'']
     = Inl ''fleet name required for fleet target'' \<and>
   ResolveClusterNames (Some (target ''fleet'' [] [] ''x'' []))
       (registryOf [''x-1'', ''x-2'', ''y-1''])
     = Inr [''default'']"
  by (simp add: GetClusterNames_def ResolveClusterNames_def)

subsection \<open>Selectors\<close>

lemma SplitN2_shape: "SplitN2 s c = [s] \<or> (\<exists>a b. SplitN2 s c = [a, b])"
  by (simp add: SplitN2_def split: list.splits)

lemma parse_fold_map_of:
  "map_of (fold (\<lambda>pair selectors.
             (case SplitN2 (TrimSpace pair) CHR ''='' of
                [k, v] \<Rightarrow> AList.update (TrimSpace k) (TrimSpace v) selectors
              | _ \<Rightarrow> selectors)) ps acc)
   = map_of (rev (concat (map (\<lambda>pair. case SplitN2 (TrimSpace pair) CHR ''='' of
                            [k, v] \<Rightarrow> [(TrimSpace k, TrimSpace v)]
                          | _ \<Rightarrow> []) ps)) @ acc)"
proof (induction ps arbitrary: acc)
  case Nil
  then show ?case by simp
next
  case (Cons p ps)
  have shape: "SplitN2 (TrimSpace p) CHR ''='' = [TrimSpace p] \<or>
               (\<exists>a b. SplitN2 (TrimSpace p) CHR ''='' = [a, b])"
    by (rule SplitN2_shape)
  then show ?case
  proof
    assume "SplitN2 (TrimSpace p) CHR ''='' = [TrimSpace p]"
    then show ?thesis using Cons.IH by simp
  next
    assume "\<exists>a b. SplitN2 (TrimSpace p) CHR ''='' = [a, b]"
    then obtain a b where ab: "SplitN2 (TrimSpace p) CHR ''='' = [a, b]" by blast
    show ?thesis
      using Cons.IH [of "AList.update (TrimSpace a) (TrimSpace b) acc"] ab
      by (simp add: map_add_def update_conv' fun_eq_iff split: option.splits)
  qed
qed

lemma parse_fold_distinct:
  "distinct (map fst acc) \<Longrightarrow>
   distinct (map fst (fold (\<lambda>pair selectors.
             (case SplitN2 (TrimSpace pair) CHR ''='' of
                [k, v] \<Rightarrow> AList.update (TrimSpace k) (TrimSpace v) selectors
              | _ \<Rightarrow> selectors)) ps acc))"
proof (induction ps arbitrary: acc)
  case Nil
  then show ?case by simp
next
  case (Cons p ps)
  show ?case
    using SplitN2_shape [of "TrimSpace p" "CHR ''=''"] Cons.prems
    by (auto intro!: Cons.IH simp add: distinct_update)
qed

text \<open>The map that \<open>parseSelector\<close> builds holds, for each key, the value of its last pair.\<close>

lemma parseSelector_map_of:
  "map_of (parseSelector e) = map_of (rev (spec_selectorPairs e))"
  unfolding parseSelector_def spec_selectorPairs_def
  using parse_fold_map_of [of "Split e CHR '',''" "[]"] by simp

lemma parseSelector_distinct: "distinct (map fst (parseSelector e))"
  unfolding parseSelector_def by (rule parse_fold_distinct) simp

lemma matchesSelector_iff:
  "matchesSelector unicodeLower n (parseSelector e) \<longleftrightarrow>
     (\<forall>kv \<in> set (spec_lastPairs (spec_selectorPairs e)). spec_pairHolds unicodeLower n kv)"
proof -
  have mem: "(k, v) \<in> set (parseSelector e) \<longleftrightarrow>
               map_of (rev (spec_selectorPairs e)) k = Some v" for k v
    using parseSelector_distinct [of e] parseSelector_map_of [of e]
    by (metis map_of_eq_Some_iff)
  have last_mem: "kv \<in> set (spec_lastPairs ps) \<longleftrightarrow> map_of (rev ps) (fst kv) = Some (snd kv)"
    for kv :: "string \<times> string" and ps
    unfolding spec_lastPairs_def
    by (auto dest: map_of_SomeD)
  show ?thesis
    unfolding matchesSelector_def list_all_iff
    by (auto simp add: mem last_mem Ball_def spec_pairHolds_def Contains_iff_sublist)
qed

lemma lastPairs_distinct:
  "distinct (map fst ps) \<Longrightarrow> set (spec_lastPairs ps) = set ps"
  unfolding spec_lastPairs_def
  by (auto simp add: map_of_eq_Some_iff [of "rev ps"] rev_map [symmetric])

lemma parseSelector_env_prod: "parseSelector ''env=prod'' = [(''env'', ''prod'')]"
  by code_simp

lemma matches_env_prod:
  "matchesSelector unicodeLower n (parseSelector ''env=prod'') \<longleftrightarrow> sublist ''prod'' (ToLower unicodeLower n)"
proof -
  have low: "ToLower unicodeLower ''prod'' = ''prod''"
    by (simp add: ToLower_def lowerASCII_def)
  show ?thesis
    unfolding parseSelector_env_prod
    by (simp add: matchesSelector_def low Contains_iff_sublist)
qed

text \<open>
  C5, as the code has it. For a target of kind \<^verbatim>\<open>selector\<close> whose expression is not
  empty, \<^verbatim>\<open>GetClusterNames\<close> returns the available names for which every pair that is the
  last of its key holds, in the order given, and the error
  \<^verbatim>\<open>no clusters match selector: <expression>\<close> when there is none. When no key occurs twice
  this is "every pair holds", as the specification says. For the expression
  \<^verbatim>\<open>env=prod\<close> the names returned are those whose lower-case form contains \<^verbatim>\<open>prod\<close>.
\<close>

theorem selector_resolution:
  assumes "Type t = TargetSelector" and "Selector t \<noteq> []"
  shows "GetClusterNames unicodeLower (Some t) available =
           spec_orNoMatch
             (filter (\<lambda>n. \<forall>kv \<in> set (spec_lastPairs (spec_selectorPairs (Selector t))).
                             spec_pairHolds unicodeLower n kv) available)
             (''no clusters match selector: '' @ Selector t) \<and>
         (distinct (map fst (spec_selectorPairs (Selector t))) \<longrightarrow>
            GetClusterNames unicodeLower (Some t) available =
              spec_orNoMatch
                (filter (\<lambda>n. \<forall>kv \<in> set (spec_selectorPairs (Selector t)). spec_pairHolds unicodeLower n kv)
                   available)
                (''no clusters match selector: '' @ Selector t)) \<and>
         (Selector t = ''env=prod'' \<longrightarrow>
            GetClusterNames unicodeLower (Some t) available =
              spec_orNoMatch (filter (\<lambda>n. sublist ''prod'' (ToLower unicodeLower n)) available)
                ''no clusters match selector: env=prod'')"
proof -
  have code: "GetClusterNames unicodeLower (Some t) available =
                spec_orNoMatch
                  (filter (\<lambda>n. matchesSelector unicodeLower n (parseSelector (Selector t))) available)
                  (''no clusters match selector: '' @ Selector t)"
    using assms by (simp add: GetClusterNames_def Let_def spec_orNoMatch_def)
  have last: "GetClusterNames unicodeLower (Some t) available =
           spec_orNoMatch
             (filter (\<lambda>n. \<forall>kv \<in> set (spec_lastPairs (spec_selectorPairs (Selector t))).
                             spec_pairHolds unicodeLower n kv) available)
             (''no clusters match selector: '' @ Selector t)"
    using code by (simp only: matchesSelector_iff)
  have every: "GetClusterNames unicodeLower (Some t) available =
              spec_orNoMatch
                (filter (\<lambda>n. \<forall>kv \<in> set (spec_selectorPairs (Selector t)). spec_pairHolds unicodeLower n kv)
                   available)
                (''no clusters match selector: '' @ Selector t)"
    if "distinct (map fst (spec_selectorPairs (Selector t)))"
    using last by (simp only: lastPairs_distinct [OF that])
  have prod: "GetClusterNames unicodeLower (Some t) available =
              spec_orNoMatch (filter (\<lambda>n. sublist ''prod'' (ToLower unicodeLower n)) available)
                ''no clusters match selector: env=prod''"
    if "Selector t = ''env=prod''"
    using code unfolding that by (simp only: matches_env_prod append.simps)
  from last every prod show ?thesis by blast
qed

theorem selector_resolution_witness:
  "GetClusterNames id (Some (target ''selector'' [] [] [] ''name=east''))
       [''prod-east-1'', ''prod-west-1'']
     = Inr [''prod-east-1''] \<and>
   GetClusterNames id (Some (target ''selector'' [] [] [] ''env=prod''))
       [''PROD-east-1'', ''dev-west-1'', ''nonprod-2'']
     = Inr [''PROD-east-1'', ''nonprod-2''] \<and>
   GetClusterNames id (Some (target ''selector'' [] [] [] ''env=prod, name = east ,zone=b''))
       [''dev-east-1'', ''prod-west-1'']
     = Inl ''no clusters match selector: env=prod, name = east ,zone=b'' \<and>
   GetClusterNames id
       (Some (target ''selector'' [] [] [] ([CHR 0xC2, CHR 0xA0] @ ''name=east'')))
       [''prod-east-1'', ''prod-west-1'']
     = Inr [''prod-east-1'']"
proof -
  have e1: "GetClusterNames id (Some (target ''selector'' [] [] [] ''name=east''))
       [''prod-east-1'', ''prod-west-1''] = Inr [''prod-east-1'']"
    by code_simp
  have e2: "GetClusterNames id (Some (target ''selector'' [] [] [] ''env=prod''))
       [''PROD-east-1'', ''dev-west-1'', ''nonprod-2'']
     = Inr [''PROD-east-1'', ''nonprod-2'']"
    by code_simp
  have e3: "GetClusterNames id
       (Some (target ''selector'' [] [] [] ''env=prod, name = east ,zone=b''))
       [''dev-east-1'', ''prod-west-1'']
     = Inl ''no clusters match selector: env=prod, name = east ,zone=b''"
    by code_simp
  have e4: "GetClusterNames id
       (Some (target ''selector'' [] [] [] ([CHR 0xC2, CHR 0xA0] @ ''name=east'')))
       [''prod-east-1'', ''prod-west-1'']
     = Inr [''prod-east-1'']"
    by code_simp
  show ?thesis
    using selector_resolution [of "target ''selector'' [] [] [] ''name=east''" id
          "[''prod-east-1'', ''prod-west-1'']"]
    by (simp only: e1 e2 e3 e4)
qed

text \<open>
  C5 as the specification words it fails in two places. In \<^verbatim>\<open>name=east,name=west\<close> the
  pair \<^verbatim>\<open>name=east\<close> does not hold for \<^verbatim>\<open>prod-west-1\<close>, yet the name is returned: the map
  kept only \<^verbatim>\<open>name=west\<close>. And the empty expression, which has no pair at all, is
  refused by validation instead of matching every name.
\<close>

theorem selector_resolution_counterexample:
  "spec_selectorPairs ''name=east,name=west'' = [(''name'', ''east''), (''name'', ''west'')] \<and>
   \<not> spec_pairHolds id ''prod-west-1'' (''name'', ''east'') \<and>
   GetClusterNames id (Some (target ''selector'' [] [] [] ''name=east,name=west''))
       [''prod-west-1'']
     = Inr [''prod-west-1''] \<and>
   spec_selectorPairs [] = [] \<and>
   GetClusterNames id (Some (target ''selector'' [] [] [] [])) [''prod-west-1'']
     = Inl ''selector required for selector target''"
proof -
  have a: "spec_selectorPairs ''name=east,name=west''
             = [(''name'', ''east''), (''name'', ''west'')]"
    by code_simp
  have b: "\<not> spec_pairHolds id ''prod-west-1'' (''name'', ''east'')"
    by code_simp
  have c: "GetClusterNames id (Some (target ''selector'' [] [] [] ''name=east,name=west''))
       [''prod-west-1''] = Inr [''prod-west-1'']"
    by code_simp
  have d: "spec_selectorPairs [] = []"
    by code_simp
  have e: "GetClusterNames id (Some (target ''selector'' [] [] [] [])) [''prod-west-1'']
     = Inl ''selector required for selector target''"
    by code_simp
  from a b c d e show ?thesis by blast
qed

subsection \<open>The resolver of the dispatcher\<close>

lemma fair_single: "fair sched \<Longrightarrow> sched [x] = [x]"
  unfolding fair_def by (metis mset_single_iff_right mset.simps)

text \<open>
  C10, as the code has it. \<^verbatim>\<open>ResolveClusterNames\<close> validates first. For a target that
  passes validation and has kind \<^verbatim>\<open>fleet\<close>, \<^verbatim>\<open>all\<close> or \<^verbatim>\<open>selector\<close>, or has an empty kind
  (which validation turns into \<^verbatim>\<open>single\<close>) and an empty cluster name, it returns the
  one-element list \<^verbatim>\<open>default\<close>, whatever the registry argument is; the dispatcher then
  records exactly one cluster result, under the name \<^verbatim>\<open>default\<close>.
\<close>

theorem placeholder_resolution:
  assumes "\<not> isl (Validate (Some t))"
      and "Type t = TargetFleet \<or> Type t = TargetAll \<or> Type t = TargetSelector \<or>
           (Type t = [] \<and> Cluster t = [])"
  shows "ResolveClusterNames (Some t) registry = Inr [''default''] \<and>
         (fair sched \<longrightarrow>
            map fst (ClusterResults (fst (ExecuteOnClusters reg t operation marshal sched)))
              = [''default''])"
proof -
  have r: "ResolveClusterNames (Some t) r = Inr [''default'']" for r :: 'x
    using assms by (auto simp add: ResolveClusterNames_def split: if_splits)
  have "map fst (ClusterResults (fst (ExecuteOnClusters reg t operation marshal sched)))
          = [''default'']" if "fair sched"
    using r [of reg] fair_single [OF that]
    by (simp add: ExecuteOnClusters_def Let_def collect_def AddClusterResult_def NewResult_def
          worker_def split: sum.splits)
  with r show ?thesis by simp
qed

theorem placeholder_resolution_witness:
  "ResolveClusterNames (Some (target ''fleet'' [] [] ''x'' []))
       (registryOf [''x-1'', ''x-2'', ''y-1'']) = Inr [''default''] \<and>
   ResolveClusterNames (Some (target ''selector'' [] [] [] ''env=prod''))
       (registryOf [''prod-1'']) = Inr [''default''] \<and>
   ResolveClusterNames (Some (target [] [] [] [] [])) (registryOf [''prod-1''])
     = Inr [''default''] \<and>
   map fst (ClusterResults (fst (ExecuteOnClusters (registryOf [''x-1'', ''x-2'', ''y-1''])
       (target ''all'' [] [] [] []) echo quoted (\<lambda>xs. xs)))) = [''default'']"
proof -
  have f: "fair (\<lambda>xs :: string ClusterResult list. xs)" by (simp add: fair_def)
  show ?thesis
    using f
      placeholder_resolution [of "target ''fleet'' [] [] ''x'' []"
        "registryOf [''x-1'', ''x-2'', ''y-1'']" "\<lambda>xs :: string ClusterResult list. xs"
        "registryOf [''x-1'', ''x-2'', ''y-1'']" echo quoted]
      placeholder_resolution [of "target ''selector'' [] [] [] ''env=prod''"
        "registryOf [''prod-1'']" "\<lambda>xs :: string ClusterResult list. xs"
        "registryOf [''x-1'', ''x-2'', ''y-1'']" echo quoted]
      placeholder_resolution [of "target [] [] [] [] []"
        "registryOf [''prod-1'']" "\<lambda>xs :: string ClusterResult list. xs"
        "registryOf [''x-1'', ''x-2'', ''y-1'']" echo quoted]
      placeholder_resolution [of "target ''all'' [] [] [] []"
        "registryOf [''prod-1'']" "\<lambda>xs :: string ClusterResult list. xs"
        "registryOf [''x-1'', ''x-2'', ''y-1'']" echo quoted]
    by simp
qed

text \<open>
  C10 as stated fails for targets that do not pass validation: a fleet target without a
  fleet name, a selector target without an expression, and a target of the explicit kind
  \<^verbatim>\<open>single\<close> without a cluster name all resolve to an error, not to \<^verbatim>\<open>default\<close>.
\<close>

theorem placeholder_resolution_counterexample:
  "ResolveClusterNames (Some (target ''fleet'' [] [] [] [])) (registryOf [''a''])
     = Inl ''fleet name required for fleet target'' \<and>
   ResolveClusterNames (Some (target ''selector'' [] [] [] [])) (registryOf [''a''])
     = Inl ''selector required for selector target'' \<and>
   ResolveClusterNames (Some (target ''single'' [] [] [] [])) (registryOf [''a''])
     = Inl ''cluster name required for single target''"
  by (simp add: ResolveClusterNames_def)

section \<open>The dispatcher\<close>

subsection \<open>The deadline of the operation's context\<close>

lemma worker_calls: "set (snd (worker registry operation marshal d name)) \<subseteq> {(name, d)}"
  by (simp add: worker_def split: sum.splits)

lemma dispatch_calls:
  assumes "(n, d) \<in> set (snd (ExecuteOnClusters registry t operation marshal sched))"
  shows "d = opTimeout t"
proof (cases "ResolveClusterNames (Some t) registry")
  case (Inl err)
  with assms show ?thesis by (simp add: ExecuteOnClusters_def Let_def)
next
  case (Inr names)
  with assms obtain name where
    "(n, d) \<in> set (snd (worker registry operation marshal (opTimeout t) name))"
    by (auto simp add: ExecuteOnClusters_def Let_def)
  with worker_calls show ?thesis by fastforce
qed

lemma seconds_no_wrap:
  fixes w :: "64 word"
  assumes "0 < sint w" and "sint w \<le> 9223372036"
  shows "sint (w * Second) = sint w * 1000000000"
proof -
  have s: "sint Second = 1000000000"
    by (simp add: Second_def)
  have "sint (w * Second) = signed_take_bit 63 (sint w * sint Second)"
    by (simp add: sint_word_ariths)
  also have "\<dots> = sint w * 1000000000"
    unfolding s using assms by (intro signed_take_bit_int_eq_self) simp_all
  finally show ?thesis .
qed

text \<open>
  C3, as the code has it. Every call of the operation gets a context derived with the
  duration \<open>opTimeout\<close> of the target: \<^verbatim>\<open>Timeout\<close> seconds when \<^verbatim>\<open>Timeout\<close> is positive
  (and at most 9223372036, so that the count of nanoseconds fits \<^verbatim>\<open>int64\<close>), and
  the constant thirty seconds when \<^verbatim>\<open>Timeout\<close> is zero or negative. The registry's own
  timeout, whatever \<^verbatim>\<open>SetTimeout\<close> stored there, is not read.
\<close>

theorem dispatch_timeout:
  assumes "(n, d) \<in> set (snd (ExecuteOnClusters (SetTimeout registry dflt) t operation marshal
                                 sched))"
  shows "(0 < sint (Timeout t) \<and> sint (Timeout t) \<le> 9223372036 \<longrightarrow>
            sint d = sint (Timeout t) * 1000000000) \<and>
         (sint (Timeout t) \<le> 0 \<longrightarrow> d = 30 * Second \<and> sint d = 30000000000)"
proof -
  have d: "d = opTimeout t"
    using assms by (rule dispatch_calls)
  have thirty: "sint (30 * Second) = 30000000000"
    by (simp add: Second_def)
  show ?thesis
    unfolding d
    by (auto simp add: opTimeout_def word_sless_alt seconds_no_wrap thirty)
qed

theorem dispatch_timeout_witness:
  "(''a'', 45000000000) \<in> set (snd (ExecuteOnClusters
       (SetTimeout (registryOf [''a'']) (60 * Second))
       \<lparr>Type = ''single'', Cluster = ''a'', Clusters = [], Fleet = [], Selector = [],
        Timeout = 45\<rparr> echo quoted (\<lambda>xs. xs))) \<and>
   sint (45000000000 :: Duration) = 45 * 1000000000 \<and>
   (''a'', 30000000000) \<in> set (snd (ExecuteOnClusters
       (SetTimeout (registryOf [''a'']) (60 * Second))
       \<lparr>Type = ''single'', Cluster = ''a'', Clusters = [], Fleet = [], Selector = [],
        Timeout = - 1\<rparr> echo quoted (\<lambda>xs. xs))) \<and>
   sint (30000000000 :: Duration) = 30000000000"
proof -
  have m1: "(''a'', 45000000000) \<in> set (snd (ExecuteOnClusters
       (SetTimeout (registryOf [''a'']) (60 * Second))
       \<lparr>Type = ''single'', Cluster = ''a'', Clusters = [], Fleet = [], Selector = [],
        Timeout = 45\<rparr> echo quoted (\<lambda>xs. xs)))"
    by (simp add: ExecuteOnClusters_def ResolveClusterNames_def worker_def GetClient_def
          SetTimeout_def opTimeout_def Second_def word_sless_alt)
  have m2: "(''a'', 30000000000) \<in> set (snd (ExecuteOnClusters
       (SetTimeout (registryOf [''a'']) (60 * Second))
       \<lparr>Type = ''single'', Cluster = ''a'', Clusters = [], Fleet = [], Selector = [],
        Timeout = - 1\<rparr> echo quoted (\<lambda>xs. xs)))"
    by (simp add: ExecuteOnClusters_def ResolveClusterNames_def worker_def GetClient_def
          SetTimeout_def opTimeout_def Second_def word_sless_alt)
  show ?thesis
    using m1 m2 dispatch_timeout [OF m1] dispatch_timeout [OF m2] by simp
qed

text \<open>
  C3 as the specification words it fails: with the registry's timeout set to sixty
  seconds and no timeout in the target, the operation's context is derived with thirty
  seconds. The second half shows where the bound of the theorem comes from: for a
  \<^verbatim>\<open>Timeout\<close> of 9223372037 the product with \<^verbatim>\<open>time.Second\<close> wraps to a negative duration.
\<close>

theorem dispatch_timeout_counterexample:
  "timeout (SetTimeout (registryOf [''a'']) (60 * Second)) = 60000000000 \<and>
   snd (ExecuteOnClusters (SetTimeout (registryOf [''a'']) (60 * Second))
          (target ''single'' ''a'' [] [] []) echo quoted (\<lambda>xs. xs))
     = [(''a'', 30000000000)] \<and>
   (30000000000 :: Duration) \<noteq> 60000000000 \<and>
   snd (ExecuteOnClusters (registryOf [''a''])
          \<lparr>Type = ''single'', Cluster = ''a'', Clusters = [], Fleet = [], Selector = [],
           Timeout = 9223372037\<rparr> echo quoted (\<lambda>xs. xs))
     = [(''a'', 9223372037 * Second)] \<and>
   sint (9223372037 * Second) = - 9223372036709551616"
  by (simp add: ExecuteOnClusters_def ResolveClusterNames_def worker_def GetClient_def
        SetTimeout_def opTimeout_def Second_def word_sless_alt)

subsection \<open>The recorded outcomes\<close>

lemma fair_set: "fair sched \<Longrightarrow> set (sched xs) = set xs"
  unfolding fair_def by (metis mset_eq_setD)

lemma fair_pair:
  assumes "fair sched"
  shows "sched [x, y] = [x, y] \<or> sched [x, y] = [y, x]"
proof -
  have m: "mset (sched [x, y]) = mset [x, y]"
    using assms by (simp add: fair_def)
  then have "length (sched [x, y]) = 2"
    using mset_eq_length by fastforce
  then obtain u v where uv: "sched [x, y] = [u, v]"
    by (metis (no_types, opaque_lifting) length_0_conv length_Suc_conv numeral_2_eq_2)
  with m have "{#u, v#} = {#x, y#}" by simp
  then have "u = x \<and> v = y \<or> u = y \<and> v = x"
    by (auto simp add: add_eq_conv_ex)
  with uv show ?thesis by auto
qed

lemma update_entries: "set (AList.update k v al) \<subseteq> insert (k, v) (set al)"
  by (induction al) auto

lemma collect_entries:
  "(n, c) \<in> set (ClusterResults (collect xs r)) \<Longrightarrow>
   (n, c) \<in> set (ClusterResults r) \<or>
   (\<exists>x \<in> set xs. n = ClusterName x \<and>
      c = \<lparr>ClusterName = ClusterName x, Data = Data x,
           Error = (if Success x then [] else Error x), Success = Success x\<rparr>)"
proof (induction xs arbitrary: r)
  case Nil
  then show ?case by (simp add: collect_def)
next
  case (Cons x xs)
  let ?r = "AddClusterResult r (ClusterName x) (Data x)
              (if \<not> Success x then Some (Error x) else None)"
  have step: "collect (x # xs) r = collect xs ?r"
    by (simp add: collect_def)
  from Cons.prems Cons.IH [of ?r]
  consider "(n, c) \<in> set (ClusterResults ?r)"
    | "\<exists>y \<in> set xs. n = ClusterName y \<and>
         c = \<lparr>ClusterName = ClusterName y, Data = Data y,
              Error = (if Success y then [] else Error y), Success = Success y\<rparr>"
    unfolding step by blast
  then show ?case
  proof cases
    case 1
    have "set (ClusterResults ?r) \<subseteq>
            insert (ClusterName x,
                    \<lparr>ClusterName = ClusterName x, Data = Data x,
                     Error = (if Success x then [] else Error x), Success = Success x\<rparr>)
              (set (ClusterResults r))"
      using update_entries [of "ClusterName x" _ "ClusterResults r"]
      by (auto simp add: AddClusterResult_def Let_def)
    with 1 show ?thesis by auto
  next
    case 2
    then show ?thesis by auto
  qed
qed

lemma worker_outcome:
  assumes "c = fst (worker registry operation marshal d name)"
  shows "ClusterName c = name \<and>
         (Success c \<longrightarrow> Error c = [] \<and>
            (\<exists>cl p j. GetClient registry name = Inr cl \<and> operation d cl = Inr p \<and>
                       marshal p = Inr j \<and> Data c = Some j)) \<and>
         (\<not> Success c \<longrightarrow> Data c = None \<and>
            ((\<exists>e. GetClient registry name = Inl e \<and>
                  Error c = ''failed to get client: '' @ e) \<or>
             (\<exists>cl e. GetClient registry name = Inr cl \<and> operation d cl = Inl e \<and>
                     Error c = e) \<or>
             (\<exists>cl p e. GetClient registry name = Inr cl \<and> operation d cl = Inr p \<and>
                       marshal p = Inl e \<and> Error c = ''failed to marshal data: '' @ e)))"
  using assms by (auto simp add: worker_def split: sum.splits)

text \<open>
  C9, as the code has it. Every outcome in the result of a dispatch is stored under its
  own cluster name and is the outcome that the worker of that name produced. When
  \<^verbatim>\<open>Success\<close> is true, \<^verbatim>\<open>Error\<close> is empty and \<^verbatim>\<open>Data\<close> is the marshalled payload that the
  operation returned for the registered client. When \<^verbatim>\<open>Success\<close> is false, \<^verbatim>\<open>Data\<close> is nil
  and \<^verbatim>\<open>Error\<close> is the message of the failure: \<^verbatim>\<open>failed to get client: \<close> followed by the
  message of the lookup error, or the message of the operation's error as it is, or
  \<^verbatim>\<open>failed to marshal data: \<close> followed by the message of the marshalling error. So
  \<^verbatim>\<open>Error\<close> is empty only if the operation itself returned an error with an empty message.
\<close>

theorem outcome_shape:
  assumes "fair sched"
      and "(n, c) \<in> set (ClusterResults
                         (fst (ExecuteOnClusters registry t operation marshal sched)))"
  shows "c = fst (worker registry operation marshal (opTimeout t) n) \<and>
         ClusterName c = n \<and>
         (Success c \<longrightarrow> Error c = [] \<and>
            (\<exists>cl p j. GetClient registry n = Inr cl \<and> operation (opTimeout t) cl = Inr p \<and>
                       marshal p = Inr j \<and> Data c = Some j)) \<and>
         (\<not> Success c \<longrightarrow> Data c = None \<and>
            ((\<exists>e. GetClient registry n = Inl e \<and>
                  Error c = ''failed to get client: '' @ e) \<or>
             (\<exists>cl e. GetClient registry n = Inr cl \<and> operation (opTimeout t) cl = Inl e \<and>
                     Error c = e) \<or>
             (\<exists>cl p e. GetClient registry n = Inr cl \<and> operation (opTimeout t) cl = Inr p \<and>
                       marshal p = Inl e \<and> Error c = ''failed to marshal data: '' @ e)) \<and>
            (Error c = [] \<longrightarrow>
               (\<exists>cl. GetClient registry n = Inr cl \<and> operation (opTimeout t) cl = Inl [])))"
proof (cases "ResolveClusterNames (Some t) registry")
  case (Inl err)
  with assms(2) show ?thesis
    by (simp add: ExecuteOnClusters_def Let_def NewResult_def)
next
  case (Inr names)
  let ?w = "worker registry operation marshal (opTimeout t)"
  have "(n, c) \<in> set (ClusterResults (collect (sched (map fst (map ?w names))) (NewResult t)))"
    using assms(2) Inr by (simp add: ExecuteOnClusters_def Let_def)
  then obtain x where x: "x \<in> set (sched (map fst (map ?w names)))"
      and n: "n = ClusterName x"
      and c: "c = \<lparr>ClusterName = ClusterName x, Data = Data x,
                   Error = (if Success x then [] else Error x), Success = Success x\<rparr>"
    using collect_entries [of n c _ "NewResult t"] by (auto simp add: NewResult_def)
  from x obtain name where w: "x = fst (?w name)"
    unfolding fair_set [OF assms(1)] by auto
  note shape = worker_outcome [OF w]
  from shape have name: "name = n"
    unfolding n by simp
  from shape have same: "c = x"
    unfolding c by (cases x) auto
  have first: "c = fst (?w n)"
    unfolding same w name ..
  from shape have rest: "ClusterName c = n \<and>
         (Success c \<longrightarrow> Error c = [] \<and>
            (\<exists>cl p j. GetClient registry n = Inr cl \<and> operation (opTimeout t) cl = Inr p \<and>
                       marshal p = Inr j \<and> Data c = Some j)) \<and>
         (\<not> Success c \<longrightarrow> Data c = None \<and>
            ((\<exists>e. GetClient registry n = Inl e \<and>
                  Error c = ''failed to get client: '' @ e) \<or>
             (\<exists>cl e. GetClient registry n = Inr cl \<and> operation (opTimeout t) cl = Inl e \<and>
                     Error c = e) \<or>
             (\<exists>cl p e. GetClient registry n = Inr cl \<and> operation (opTimeout t) cl = Inr p \<and>
                       marshal p = Inl e \<and> Error c = ''failed to marshal data: '' @ e)))"
    unfolding same name .
  then have empty: "\<not> Success c \<longrightarrow> Error c = [] \<longrightarrow>
               (\<exists>cl. GetClient registry n = Inr cl \<and> operation (opTimeout t) cl = Inl [])"
    by auto
  from first rest empty show ?thesis by simp
qed

theorem outcome_shape_witness:
  "(''a'', \<lparr>ClusterName = ''a'', Data = Some ''<a>'', Error = [], Success = True\<rparr>)
     \<in> set (ClusterResults (fst (ExecuteOnClusters (registryOf [''a''])
               (target ''multi'' [] [''a'', ''b''] [] []) echo quoted rev))) \<and>
   GetClient (registryOf [''a'']) ''a'' = Inr (client ''a'') \<and>
   echo (opTimeout (target ''multi'' [] [''a'', ''b''] [] [])) (client ''a'') = Inr ''a'' \<and>
   quoted ''a'' = Inr ''<a>'' \<and>
   (''b'', \<lparr>ClusterName = ''b'', Data = None,
            Error = ''failed to get client: cluster b not found in registry'',
            Success = False\<rparr>)
     \<in> set (ClusterResults (fst (ExecuteOnClusters (registryOf [''a''])
               (target ''multi'' [] [''a'', ''b''] [] []) echo quoted rev))) \<and>
   GetClient (registryOf [''a'']) ''b'' = Inl ''cluster b not found in registry''"
proof -
  have f: "fair (rev :: string ClusterResult list \<Rightarrow> _)"
    by (simp add: fair_def)
  have m: "(''a'', \<lparr>ClusterName = ''a'', Data = Some ''<a>'', Error = [], Success = True\<rparr>)
     \<in> set (ClusterResults (fst (ExecuteOnClusters (registryOf [''a''])
               (target ''multi'' [] [''a'', ''b''] [] []) echo quoted rev)))"
    by (simp add: ExecuteOnClusters_def ResolveClusterNames_def worker_def GetClient_def
          collect_def AddClusterResult_def NewResult_def)
  have m2: "(''b'', \<lparr>ClusterName = ''b'', Data = None,
            Error = ''failed to get client: cluster b not found in registry'',
            Success = False\<rparr>)
     \<in> set (ClusterResults (fst (ExecuteOnClusters (registryOf [''a''])
               (target ''multi'' [] [''a'', ''b''] [] []) echo quoted rev)))"
    by (simp add: ExecuteOnClusters_def ResolveClusterNames_def worker_def GetClient_def
          collect_def AddClusterResult_def NewResult_def)
  have all: "(''a'', \<lparr>ClusterName = ''a'', Data = Some ''<a>'', Error = [], Success = True\<rparr>)
     \<in> set (ClusterResults (fst (ExecuteOnClusters (registryOf [''a''])
               (target ''multi'' [] [''a'', ''b''] [] []) echo quoted rev))) \<and>
   GetClient (registryOf [''a'']) ''a'' = Inr (client ''a'') \<and>
   echo (opTimeout (target ''multi'' [] [''a'', ''b''] [] [])) (client ''a'') = Inr ''a'' \<and>
   quoted ''a'' = Inr ''<a>'' \<and>
   (''b'', \<lparr>ClusterName = ''b'', Data = None,
            Error = ''failed to get client: cluster b not found in registry'',
            Success = False\<rparr>)
     \<in> set (ClusterResults (fst (ExecuteOnClusters (registryOf [''a''])
               (target ''multi'' [] [''a'', ''b''] [] []) echo quoted rev))) \<and>
   GetClient (registryOf [''a'']) ''b'' = Inl ''cluster b not found in registry''"
    using m m2 by (simp add: GetClient_def)
  show ?thesis
    using outcome_shape [OF f m] outcome_shape [OF f m2] all by -
qed

text \<open>
  C9 as the specification words it fails: an operation whose error has the empty message
  leaves a failed outcome with an empty \<^verbatim>\<open>Error\<close>.
\<close>

theorem outcome_shape_counterexample:
  "ClusterResults (fst (ExecuteOnClusters (registryOf [''a''])
       (target ''single'' ''a'' [] [] []) (refuse []) quoted (\<lambda>xs. xs)))
     = [(''a'', \<lparr>ClusterName = ''a'', Data = None, Error = [], Success = False\<rparr>)]"
  by (simp add: ExecuteOnClusters_def ResolveClusterNames_def worker_def GetClient_def
        collect_def AddClusterResult_def NewResult_def)

text \<open>
  C7, as the code has it. For a target of kind \<^verbatim>\<open>multi\<close> naming \<open>a\<close> and \<open>b\<close>, with \<open>a\<close>
  registered and \<open>b\<close> not, under every order of delivery: the operation is called once,
  for \<open>a\<close>, and never for \<open>b\<close>; the result has two outcomes; the one of \<open>b\<close> is a failure
  whose message says that the cluster was not found in the registry; the one of \<open>a\<close> is
  what its worker produced; \<^verbatim>\<open>Summary.Error\<close> stays empty; and \<^verbatim>\<open>FailureCount\<close> is 1 when the
  operation on \<open>a\<close> succeeds and its payload marshals, and 2 otherwise.
\<close>

theorem missing_endpoint_recorded:
  assumes "Type t = TargetMulti" and "Clusters t = [a, b]" and "a \<noteq> b"
      and "map_of (clients registry) a = Some ca"
      and "map_of (clients registry) b = None"
      and "fair sched"
  shows "snd (ExecuteOnClusters registry t operation marshal sched) = [(a, opTimeout t)] \<and>
         TotalCount (fst (ExecuteOnClusters registry t operation marshal sched)) = 2 \<and>
         map_of (ClusterResults (fst (ExecuteOnClusters registry t operation marshal sched))) b
           = Some \<lparr>ClusterName = b, Data = None,
                   Error = ''failed to get client: cluster '' @ b @ '' not found in registry'',
                   Success = False\<rparr> \<and>
         map_of (ClusterResults (fst (ExecuteOnClusters registry t operation marshal sched))) a
           = Some (fst (worker registry operation marshal (opTimeout t) a)) \<and>
         SummaryError (Summary (fst (ExecuteOnClusters registry t operation marshal sched))) = [] \<and>
         FailureCount (fst (ExecuteOnClusters registry t operation marshal sched))
           = (if \<exists>p j. operation (opTimeout t) ca = Inr p \<and> marshal p = Inr j then 1 else 2)"
proof -
  let ?w = "worker registry operation marshal (opTimeout t)"
  have res: "ResolveClusterNames (Some t) registry = Inr [a, b]"
    using assms(1,2) by (simp add: ResolveClusterNames_def)
  have run: "ExecuteOnClusters registry t operation marshal sched
               = (collect (sched [fst (?w a), fst (?w b)]) (NewResult t),
                  snd (?w a) @ snd (?w b))"
    using res by (simp add: ExecuteOnClusters_def Let_def)
  have wb: "?w b = (\<lparr>ClusterName = b, Data = None,
                     Error = ''failed to get client: cluster '' @ b @ '' not found in registry'',
                     Success = False\<rparr>, [])"
    using assms(5) by (simp add: worker_def GetClient_def)
  have order: "sched [fst (?w a), fst (?w b)] = [fst (?w a), fst (?w b)] \<or>
               sched [fst (?w a), fst (?w b)] = [fst (?w b), fst (?w a)]"
    using assms(6) by (rule fair_pair)
  show ?thesis
  proof (cases "operation (opTimeout t) ca")
    case (Inl err)
    then have wa: "?w a = (\<lparr>ClusterName = a, Data = None, Error = err, Success = False\<rparr>,
                           [(a, opTimeout t)])"
      using assms(4) by (simp add: worker_def GetClient_def)
    from order show ?thesis
      unfolding run wa wb using assms(3) Inl
      by (auto simp add: collect_def AddClusterResult_def NewResult_def TotalCount_def
            FailureCount_def)
  next
    case (Inr p)
    show ?thesis
    proof (cases "marshal p")
      case (Inl err)
      then have wa: "?w a = (\<lparr>ClusterName = a, Data = None,
                               Error = ''failed to marshal data: '' @ err, Success = False\<rparr>,
                             [(a, opTimeout t)])"
        using assms(4) \<open>operation (opTimeout t) ca = Inr p\<close>
        by (simp add: worker_def GetClient_def)
      from order show ?thesis
        unfolding run wa wb using assms(3) Inl \<open>operation (opTimeout t) ca = Inr p\<close>
        by (auto simp add: collect_def AddClusterResult_def NewResult_def TotalCount_def
              FailureCount_def)
    next
      case (Inr j)
      then have wa: "?w a = (\<lparr>ClusterName = a, Data = Some j, Error = [], Success = True\<rparr>,
                             [(a, opTimeout t)])"
        using assms(4) \<open>operation (opTimeout t) ca = Inr p\<close>
        by (simp add: worker_def GetClient_def)
      from order show ?thesis
        unfolding run wa wb using assms(3) Inr \<open>operation (opTimeout t) ca = Inr p\<close>
        by (auto simp add: collect_def AddClusterResult_def NewResult_def TotalCount_def
              FailureCount_def)
    qed
  qed
qed

theorem missing_endpoint_recorded_witness:
  "snd (ExecuteOnClusters (registryOf [''a'']) (target ''multi'' [] [''a'', ''b''] [] [])
          echo quoted rev) = [(''a'', 30 * Second)] \<and>
   TotalCount (fst (ExecuteOnClusters (registryOf [''a''])
          (target ''multi'' [] [''a'', ''b''] [] []) echo quoted rev)) = 2 \<and>
   map_of (ClusterResults (fst (ExecuteOnClusters (registryOf [''a''])
          (target ''multi'' [] [''a'', ''b''] [] []) echo quoted rev))) ''b''
     = Some \<lparr>ClusterName = ''b'', Data = None,
             Error = ''failed to get client: cluster b not found in registry'',
             Success = False\<rparr> \<and>
   map_of (ClusterResults (fst (ExecuteOnClusters (registryOf [''a''])
          (target ''multi'' [] [''a'', ''b''] [] []) echo quoted rev))) ''a''
     = Some \<lparr>ClusterName = ''a'', Data = Some ''<a>'', Error = [], Success = True\<rparr> \<and>
   FailureCount (fst (ExecuteOnClusters (registryOf [''a''])
          (target ''multi'' [] [''a'', ''b''] [] []) echo quoted rev)) = 1"
proof -
  have f: "fair (rev :: string ClusterResult list \<Rightarrow> _)"
    by (simp add: fair_def)
  have ab: "''a'' \<noteq> ''b''" by simp
  have ca: "map_of (clients (registryOf [''a''])) ''a'' = Some (client ''a'')" by simp
  have cb: "map_of (clients (registryOf [''a''])) ''b'' = None" by simp
  have ty: "Type (target ''multi'' [] [''a'', ''b''] [] []) = TargetMulti" by simp
  have cs: "Clusters (target ''multi'' [] [''a'', ''b''] [] []) = [''a'', ''b'']" by simp
  show ?thesis
    using missing_endpoint_recorded [OF ty cs ab ca cb f, of echo quoted]
    by (simp add: worker_def GetClient_def opTimeout_def)
qed

text \<open>
  C7 as the specification words it fails: when the operation on the registered cluster
  fails too, two clusters have failed, not one.
\<close>

theorem missing_endpoint_recorded_counterexample:
  "FailureCount (fst (ExecuteOnClusters (registryOf [''a''])
          (target ''multi'' [] [''a'', ''b''] [] []) (refuse ''boom'') quoted (\<lambda>xs. xs))) = 2 \<and>
   ClusterResults (fst (ExecuteOnClusters (registryOf [''a''])
          (target ''multi'' [] [''a'', ''b''] [] []) (refuse ''boom'') quoted (\<lambda>xs. xs)))
     = [(''a'', \<lparr>ClusterName = ''a'', Data = None, Error = ''boom'', Success = False\<rparr>),
        (''b'', \<lparr>ClusterName = ''b'', Data = None,
                 Error = ''failed to get client: cluster b not found in registry'',
                 Success = False\<rparr>)]"
  by (simp add: ExecuteOnClusters_def ResolveClusterNames_def worker_def GetClient_def
        collect_def AddClusterResult_def NewResult_def FailureCount_def)

subsection \<open>The counts of a result\<close>

text \<open>
  While every result is recorded under a name not recorded before, the names in
  \<^verbatim>\<open>Errors\<close> are the names of the failed outcomes, and the three counts agree.
\<close>

lemma update_fresh: "k \<notin> fst ` set al \<Longrightarrow> AList.update k v al = al @ [(k, v)]"
  by (induction al) auto

lemma collect_in_step:
  assumes "map fst (Errors r) = map fst (filter (\<lambda>(n, c). \<not> Success c) (ClusterResults r))"
      and "distinct (map ClusterName xs)"
      and "ClusterName ` set xs \<inter> fst ` set (ClusterResults r) = {}"
  shows "map fst (Errors (collect xs r))
           = map fst (filter (\<lambda>(n, c). \<not> Success c) (ClusterResults (collect xs r)))"
  using assms
proof (induction xs arbitrary: r)
  case Nil
  then show ?case by (simp add: collect_def)
next
  case (Cons x xs)
  let ?r = "AddClusterResult r (ClusterName x) (Data x)
              (if \<not> Success x then Some (Error x) else None)"
  have step: "collect (x # xs) r = collect xs ?r"
    by (simp add: collect_def)
  have fresh: "ClusterName x \<notin> fst ` set (ClusterResults r)"
    using Cons.prems(3) by auto
  then have fresh_err: "ClusterName x \<notin> fst ` set (Errors r)"
    using Cons.prems(1) by (metis (no_types, lifting) filter_is_subset image_mono list.set_map subsetD)
  have results: "ClusterResults ?r = ClusterResults r @
      [(ClusterName x, \<lparr>ClusterName = ClusterName x, Data = Data x,
                         Error = (if Success x then [] else Error x), Success = Success x\<rparr>)]"
    using update_fresh [OF fresh] by (simp add: AddClusterResult_def Let_def)
  have errors: "Errors ?r = (if Success x then Errors r
                             else Errors r @ [(ClusterName x, Error x)])"
    using update_fresh [OF fresh_err] by (simp add: AddClusterResult_def Let_def)
  have inv: "map fst (Errors ?r) = map fst (filter (\<lambda>(n, c). \<not> Success c) (ClusterResults ?r))"
    unfolding results errors using Cons.prems(1) by simp
  have disj: "ClusterName ` set xs \<inter> fst ` set (ClusterResults ?r) = {}"
    unfolding results using Cons.prems(2,3) by auto
  show ?case
    unfolding step using inv disj Cons.prems(2) by (intro Cons.IH) simp_all
qed

lemma counts_agree_fresh_names:
  assumes "distinct (map ClusterName xs)"
  shows "SuccessCount (collect xs (NewResult t)) + FailureCount (collect xs (NewResult t))
           = TotalCount (collect xs (NewResult t))"
proof -
  let ?r = "collect xs (NewResult t) :: 'a Result"
  have "map fst (Errors ?r) = map fst (filter (\<lambda>(n, c). \<not> Success c) (ClusterResults ?r))"
    using assms by (intro collect_in_step) (simp_all add: NewResult_def)
  then have "length (Errors ?r) = length (filter (\<lambda>(n, c). \<not> Success c) (ClusterResults ?r))"
    by (metis length_map)
  then show ?thesis
    using sum_length_filter_compl [of "\<lambda>(n, c). Success c" "ClusterResults ?r"]
    unfolding SuccessCount_def FailureCount_def TotalCount_def case_prod_beta
    by simp
qed

text \<open>
  C2 at a failing input. A failure recorded for \<^verbatim>\<open>a\<close> and then a success recorded for
  \<^verbatim>\<open>a\<close>: the later write wins in \<^verbatim>\<open>ClusterResults\<close>, but the entry of \<^verbatim>\<open>a\<close> stays in
  \<^verbatim>\<open>Errors\<close>, which \<^verbatim>\<open>FailureCount\<close> measures. One outcome is counted as one success and
  one failure.
\<close>

theorem counts_after_overwrite:
  "ClusterResults (AddClusterResult (AddClusterResult (NewResult (target ''multi'' [] [''a'', ''a''] [] []))
       ''a'' None (Some ''boom'')) ''a'' (Some ''ok'') None)
     = [(''a'', \<lparr>ClusterName = ''a'', Data = Some ''ok'', Error = [], Success = True\<rparr>)] \<and>
   SuccessCount (AddClusterResult (AddClusterResult (NewResult (target ''multi'' [] [''a'', ''a''] [] []))
       ''a'' None (Some ''boom'')) ''a'' (Some ''ok'') None) = 1 \<and>
   FailureCount (AddClusterResult (AddClusterResult (NewResult (target ''multi'' [] [''a'', ''a''] [] []))
       ''a'' None (Some ''boom'')) ''a'' (Some ''ok'') None) = 1 \<and>
   TotalCount (AddClusterResult (AddClusterResult (NewResult (target ''multi'' [] [''a'', ''a''] [] []))
       ''a'' None (Some ''boom'')) ''a'' (Some ''ok'') None) = 1"
  by (simp add: AddClusterResult_def NewResult_def SuccessCount_def FailureCount_def
        TotalCount_def)

end
